theory Spec2Isabelle
  imports Main
begin

section \<open>Text and the string operations of the host language\<close>

text \<open>
  A Python \<open>str\<close> is a sequence of Unicode code points, and \<open>len\<close>, the character
  classes of \<open>re\<close> and \<open>str.strip\<close> all work on code points. A text is therefore a
  list of code points (natural numbers). ASCII literals are written through \<open>asc\<close>;
  the backslash, which a string literal cannot hold, is the code point 92.
\<close>

type_synonym utext = "nat list"

definition asc :: "string \<Rightarrow> utext" where
  "asc s = map of_char s"

text \<open>\<open>cmd ''times''\<close> is the LaTeX command \<^verbatim>\<open>\times\<close>: a backslash and the name.\<close>

definition cmd :: "string \<Rightarrow> utext" where
  "cmd s = 92 # asc s"

text \<open>The opening of a displaystyle fragment, \<^verbatim>\<open>{\displaystyle\<close>.\<close>

definition ds_open :: utext where
  "ds_open = 123 # cmd ''displaystyle''"

text \<open>
  Whitespace as \<open>str.isspace\<close>, \<open>str.strip\<close> and the class \<^verbatim>\<open>\s\<close> of a Unicode
  pattern see it (the three agree): U+0009..U+000D, U+001C..U+0020, U+0085, U+00A0,
  U+1680, U+2000..U+200A, U+2028, U+2029, U+202F, U+205F, U+3000.
\<close>

definition is_space :: "nat \<Rightarrow> bool" where
  "is_space c \<longleftrightarrow>
     (9 \<le> c \<and> c \<le> 13) \<or> (28 \<le> c \<and> c \<le> 32) \<or> c = 133 \<or> c = 160 \<or> c = 5760 \<or>
     (8192 \<le> c \<and> c \<le> 8202) \<or> c = 8232 \<or> c = 8233 \<or> c = 8239 \<or> c = 8287 \<or> c = 12288"

text \<open>\<open>s.strip()\<close>\<close>

definition str_strip :: "utext \<Rightarrow> utext" where
  "str_strip s = rev (dropWhile is_space (rev (dropWhile is_space s)))"

text \<open>\<open>s.split(sep)\<close> for a separator of one code point; the result is never empty.\<close>

fun str_split :: "nat \<Rightarrow> utext \<Rightarrow> utext list" where
  "str_split sep [] = [[]]"
| "str_split sep (c # cs) =
     (if c = sep then [] # str_split sep cs
      else (case str_split sep cs of [] \<Rightarrow> [[c]] | l # ls \<Rightarrow> (c # l) # ls))"

text \<open>\<open>sep.join(xs)\<close>\<close>

fun str_join :: "utext \<Rightarrow> utext list \<Rightarrow> utext" where
  "str_join sep [] = []"
| "str_join sep [x] = x"
| "str_join sep (x # y # ys) = x @ sep @ str_join sep (y # ys)"

text \<open>
  \<open>s.replace(old, new)\<close>: the occurrences of \<open>old\<close> are replaced from the left, without
  overlap; an empty \<open>old\<close> puts \<open>new\<close> before every code point and at the end.
\<close>

function str_replace :: "utext \<Rightarrow> utext \<Rightarrow> utext \<Rightarrow> utext" where
  "str_replace old new s =
     (if old = [] then new @ (case s of [] \<Rightarrow> [] | c # cs \<Rightarrow> c # str_replace old new cs)
      else if take (length old) s = old then new @ str_replace old new (drop (length old) s)
      else (case s of [] \<Rightarrow> [] | c # cs \<Rightarrow> c # str_replace old new cs))"
  by pat_completeness auto
termination
proof (relation "measure (\<lambda>(old, new, s). length s)")
  fix old new s :: utext
  assume "old \<noteq> []" and "take (length old) s = old"
  then have "s \<noteq> []" by auto
  with \<open>old \<noteq> []\<close>
  show "((old, new, drop (length old) s), (old, new, s)) \<in> measure (\<lambda>(old, new, s). length s)"
    by simp
qed auto

declare str_replace.simps [simp del]

section \<open>The regular expressions of the \<open>re\<close> module\<close>

text \<open>
  The patterns of the program use literals, character classes, greedy repetition, one
  capturing group, a backreference, the anchors and one-character lookarounds. \<open>re\<close> is
  a backtracking matcher: at a position it tries the alternatives in a fixed order and
  takes the first that lets the whole pattern match. The matcher below returns, for a
  pattern and a position, every way the pattern can match there, in that order; the
  head of the list is the match \<open>re\<close> reports.

  A position is the text already passed (reversed, so that the code point just before
  the position is the head), the text still ahead, and the groups captured so far.
\<close>

record mstate =
  seen :: utext
  rest :: utext
  caps :: "(nat \<times> utext) list"

datatype regex =
    Eps
  | Cls "nat \<Rightarrow> bool"
  | Str utext
  | Seq regex regex
  | Star regex
  | Opt regex
  | Grp nat regex
  | Backref nat
  | Bol
  | Eol
  | EolM
  | NotBehind "nat \<Rightarrow> bool"
  | NotAhead regex

text \<open>
  \<open>Cls p\<close> is a character class, \<open>Str s\<close> a literal, \<open>Star r\<close> the greedy \<^verbatim>\<open>r*\<close>,
  \<open>Opt r\<close> the greedy \<^verbatim>\<open>r?\<close>, \<open>Grp n r\<close> the capturing group number \<open>n\<close>,
  \<open>Backref n\<close> the backreference \<^verbatim>\<open>\n\<close>, \<open>Bol\<close> is \<^verbatim>\<open>^\<close> and \<open>Eol\<close> is \<^verbatim>\<open>$\<close>
  without flags (\<^verbatim>\<open>$\<close> also matches before a final newline), \<open>EolM\<close> is \<^verbatim>\<open>$\<close> under
  \<open>re.MULTILINE\<close>, \<open>NotBehind p\<close> is \<^verbatim>\<open>(?<!c)\<close> for a class of one code point and
  \<open>NotAhead r\<close> is \<^verbatim>\<open>(?!r)\<close>.
\<close>

definition advance :: "nat \<Rightarrow> mstate \<Rightarrow> mstate" where
  "advance n st = st\<lparr>seen := rev (take n (rest st)) @ seen st, rest := drop n (rest st)\<rparr>"

function ms :: "regex \<Rightarrow> mstate \<Rightarrow> mstate list" where
  "ms Eps st = [st]"
| "ms (Cls p) st = (case rest st of [] \<Rightarrow> [] | c # cs \<Rightarrow> if p c then [advance 1 st] else [])"
| "ms (Str s) st = (if take (length s) (rest st) = s then [advance (length s) st] else [])"
| "ms (Seq r1 r2) st = concat (map (ms r2) (ms r1 st))"
| "ms (Star r) st =
     concat (map (\<lambda>st'. if length (rest st') < length (rest st) then ms (Star r) st' else [st'])
                 (ms r st)) @ [st]"
| "ms (Opt r) st = ms r st @ [st]"
| "ms (Grp n r) st =
     map (\<lambda>st'. st'\<lparr>caps := (n, take (length (rest st) - length (rest st')) (rest st)) # caps st'\<rparr>)
         (ms r st)"
| "ms (Backref n) st =
     (case map_of (caps st) n of
        None \<Rightarrow> []
      | Some g \<Rightarrow> if take (length g) (rest st) = g then [advance (length g) st] else [])"
| "ms Bol st = (if seen st = [] then [st] else [])"
| "ms Eol st = (if rest st = [] \<or> rest st = [10] then [st] else [])"
| "ms EolM st = (case rest st of [] \<Rightarrow> [st] | c # cs \<Rightarrow> if c = 10 then [st] else [])"
| "ms (NotBehind p) st = (case seen st of [] \<Rightarrow> [st] | c # cs \<Rightarrow> if p c then [] else [st])"
| "ms (NotAhead r) st = (if ms r st = [] then [st] else [])"
  by pat_completeness auto
termination
  by (relation "measures [\<lambda>(r, st). size r, \<lambda>(r, st). length (rest st)]") auto

text \<open>The equation of \<open>Star\<close> unfolds itself, so it is used only where it is asked for.\<close>

declare ms.simps(5) [simp del]

text \<open>\<^verbatim>\<open>r+\<close> and a sequence of several parts.\<close>

definition plus :: "regex \<Rightarrow> regex" where
  "plus r = Seq r (Star r)"

fun seql :: "regex list \<Rightarrow> regex" where
  "seql [] = Eps"
| "seql [r] = r"
| "seql (r # rs) = Seq r (seql rs)"

definition start_at :: "utext \<Rightarrow> mstate" where
  "start_at s = \<lparr>seen = [], rest = s, caps = []\<rparr>"

text \<open>\<open>re.match(pattern, s)\<close>, used for its truth value: is there a match at the start.\<close>

definition re_match :: "regex \<Rightarrow> utext \<Rightarrow> bool" where
  "re_match r s \<longleftrightarrow> ms r (start_at s) \<noteq> []"

text \<open>A match object: \<open>m.group(0)\<close> and the captured groups.\<close>

record rmatch =
  whole :: utext
  groups :: "(nat \<times> utext) list"

definition mk_match :: "mstate \<Rightarrow> mstate \<Rightarrow> rmatch" where
  "mk_match st m =
     \<lparr>whole = take (length (rest st) - length (rest m)) (rest st), groups = caps m\<rparr>"

text \<open>\<open>m.group(n)\<close>; every group asked for in this program takes part in its match.\<close>

definition group :: "rmatch \<Rightarrow> nat \<Rightarrow> utext" where
  "group m n = (case map_of (groups m) n of None \<Rightarrow> [] | Some g \<Rightarrow> g)"

text \<open>
  \<open>re.sub(pattern, repl, s)\<close>: the text is scanned from the left; where the pattern
  matches, the replacement is emitted and the scan goes on behind the match, otherwise
  one code point is copied. After an empty match the next match at the same position
  has to be non-empty.
\<close>

function re_sub_from :: "regex \<Rightarrow> (rmatch \<Rightarrow> utext) \<Rightarrow> mstate \<Rightarrow> utext" where
  "re_sub_from r f st =
     (case ms r (st\<lparr>caps := []\<rparr>) of
        [] \<Rightarrow> (case rest st of [] \<Rightarrow> [] | c # cs \<Rightarrow> c # re_sub_from r f (advance 1 st))
      | m # alts \<Rightarrow>
          if length (rest m) < length (rest st) then f (mk_match st m) @ re_sub_from r f m
          else f (mk_match st m) @
               (case filter (\<lambda>m'. length (rest m') < length (rest st)) alts of
                  [] \<Rightarrow> (case rest st of [] \<Rightarrow> [] | c # cs \<Rightarrow> c # re_sub_from r f (advance 1 st))
                | m' # _ \<Rightarrow> f (mk_match st m') @ re_sub_from r f m'))"
  by pat_completeness auto
termination
  by (relation "measure (\<lambda>(r, f, st). length (rest st))")
     (auto simp: advance_def filter_eq_Cons_iff)

declare re_sub_from.simps [simp del]

definition re_sub :: "regex \<Rightarrow> (rmatch \<Rightarrow> utext) \<Rightarrow> utext \<Rightarrow> utext" where
  "re_sub r f s = re_sub_from r f (start_at s)"

text \<open>A replacement template: literal text and group references \<^verbatim>\<open>\n\<close>.\<close>

datatype titem = TLit utext | TGrp nat

fun expand :: "titem list \<Rightarrow> rmatch \<Rightarrow> utext" where
  "expand [] m = []"
| "expand (TLit s # ts) m = s @ expand ts m"
| "expand (TGrp n # ts) m = group m n @ expand ts m"

section \<open>The stacked-math collapser\<close>

text \<open>
  The class of the pattern of \<open>collapse_stacked_math\<close>: ASCII letters and digits, 62
  mathematical and Greek symbols, and \<^verbatim>\<open>= + - * / ^ ( ) . ,\<close>.
\<close>

definition math_symbols :: "nat list" where
  "math_symbols =
     [215, 247, 177, 8723, 8804, 8805, 8800, 8776, 8712, 8713, 8834, 8835, 8746, 8745,
      8743, 8744, 172, 8594, 8592, 8596, 8704, 8707, 8706, 8711, 8747, 8721, 8719, 8730,
      8734,
      945, 946, 947, 948, 949, 950, 951, 952, 953, 954, 955, 956, 957, 958, 960, 961,
      963, 964, 965, 966, 967, 968, 969,
      915, 916, 920, 923, 926, 928, 931, 934, 936, 937]"

definition math_token_class :: "nat \<Rightarrow> bool" where
  "math_token_class c \<longleftrightarrow>
     (97 \<le> c \<and> c \<le> 122) \<or> (65 \<le> c \<and> c \<le> 90) \<or> (48 \<le> c \<and> c \<le> 57) \<or>
     c \<in> set math_symbols \<or> c \<in> set (asc ''=+-*/^().,'')"

definition stacked_pattern :: regex where
  "stacked_pattern = seql [Bol, plus (Cls math_token_class), Eol]"

text \<open>The test of the outer loop on \<open>lines[i]\<close> and the test of the inner loop on \<open>lines[j]\<close>.\<close>

definition starts_run :: "utext \<Rightarrow> bool" where
  "starts_run l \<longleftrightarrow>
     (let line = str_strip l in length line \<le> 3 \<and> re_match stacked_pattern line)"

definition continues_run :: "utext \<Rightarrow> bool" where
  "continues_run l \<longleftrightarrow>
     (let next_line = str_strip l
      in length next_line \<le> 3 \<and> next_line \<noteq> [] \<and> re_match stacked_pattern next_line)"

text \<open>The inner loop: the tokens appended to \<open>math_tokens\<close> from \<open>lines[j:]\<close>.\<close>

fun collect_tokens :: "utext list \<Rightarrow> utext list" where
  "collect_tokens [] = []"
| "collect_tokens (l # ls) =
     (if continues_run l then str_strip l # collect_tokens ls else [])"

text \<open>
  The outer loop on \<open>lines[i:]\<close>, returning what it appends to \<open>result\<close>. After a
  collapse \<open>i\<close> becomes \<open>j\<close>, which is \<open>i\<close> plus the number of tokens.
\<close>

function collapse_loop :: "utext list \<Rightarrow> utext list" where
  "collapse_loop [] = []"
| "collapse_loop (l # ls) =
     (if starts_run l then
        (let math_tokens = str_strip l # collect_tokens ls
         in if length math_tokens \<ge> 3
            then str_join [32] math_tokens # collapse_loop (drop (length math_tokens) (l # ls))
            else l # collapse_loop ls)
      else l # collapse_loop ls)"
  by pat_completeness auto
termination
  by (relation "measure length") auto

definition collapse_stacked_math :: "utext \<Rightarrow> utext" where
  "collapse_stacked_math t = str_join [10] (collapse_loop (str_split 10 t))"

section \<open>The displaystyle converter\<close>

definition no_brace :: "nat \<Rightarrow> bool" where
  "no_brace c \<longleftrightarrow> c \<noteq> 123 \<and> c \<noteq> 125"

text \<open>\<^verbatim>\<open>\{\\displaystyle\s+([^{}]*(?:\{[^{}]*\}[^{}]*)*)\}\<close>\<close>

definition displaystyle_pattern :: regex where
  "displaystyle_pattern =
     seql [Str ds_open, plus (Cls is_space),
           Grp 1 (Seq (Star (Cls no_brace))
                      (Star (seql [Str [123], Star (Cls no_brace), Str [125],
                                   Star (Cls no_brace)]))),
           Str [125]]"

definition replace_displaystyle :: "rmatch \<Rightarrow> utext" where
  "replace_displaystyle m =
     (let content = group m 1;
          content = str_strip content;
          content = re_sub (Str (cmd ''times'')) (expand [TLit (32 # cmd ''times'' @ [32])]) content;
          content = re_sub (Str (cmd ''cdot'')) (expand [TLit (32 # cmd ''cdot'' @ [32])]) content;
          content = re_sub (plus (Cls is_space)) (expand [TLit [32]]) content
      in [36] @ str_strip content @ [36])"

definition convert_displaystyle_latex :: "utext \<Rightarrow> utext" where
  "convert_displaystyle_latex t = re_sub displaystyle_pattern replace_displaystyle t"

section \<open>The inline LaTeX wrapper\<close>

definition wrap_latex :: "rmatch \<Rightarrow> utext" where
  "wrap_latex m = [36] @ whole m @ [36]"

definition is_alpha :: "nat \<Rightarrow> bool" where
  "is_alpha c \<longleftrightarrow> (65 \<le> c \<and> c \<le> 90) \<or> (97 \<le> c \<and> c \<le> 122)"

text \<open>\<^verbatim>\<open>(?<!\$)\\mathbf\{[^}]+\}(?!\$)\<close> and its two siblings.\<close>

definition font_pattern :: "string \<Rightarrow> regex" where
  "font_pattern name =
     seql [NotBehind (\<lambda>c. c = 36), Str (cmd name), Str [123], plus (Cls (\<lambda>c. c \<noteq> 125)),
           Str [125], NotAhead (Str [36])]"

text \<open>\<^verbatim>\<open>(?<!\$)\\[A-Za-z]+(?:\{[^}]*\})?(?!\$)\<close>\<close>

definition command_pattern :: regex where
  "command_pattern =
     seql [NotBehind (\<lambda>c. c = 36), Str [92], plus (Cls is_alpha),
           Opt (seql [Str [123], Star (Cls (\<lambda>c. c \<noteq> 125)), Str [125]]),
           NotAhead (Str [36])]"

definition inline_patterns :: "regex list" where
  "inline_patterns =
     [font_pattern ''mathbf'', font_pattern ''mathit'', font_pattern ''mathrm'', command_pattern]"

definition convert_inline_latex_fragments :: "utext \<Rightarrow> utext" where
  "convert_inline_latex_fragments t =
     (let t = foldl (\<lambda>t pattern. re_sub pattern wrap_latex t) t inline_patterns;
          t = re_sub (seql [Str [36], Str [36], Grp 1 (plus (Cls (\<lambda>c. c \<noteq> 36))), Str [36], Str [36]])
                     (expand [TLit [36], TGrp 1, TLit [36]]) t;
          t = re_sub (seql [Str [36], Star (Cls is_space), Str [36]]) (expand [TLit [32]]) t
      in t)"

section \<open>The orchestrator\<close>

text \<open>Step 2 removes the word joiner U+2060.\<close>

definition word_joiner :: nat where
  "word_joiner = 8288"

text \<open>Step 3, first pattern: \<^verbatim>\<open>(\S+)\s+\{\\displaystyle\s+\1\s*\}\<close>, replaced by
  \<^verbatim>\<open>{\displaystyle \1}\<close>.\<close>

definition dedup_exact_pattern :: regex where
  "dedup_exact_pattern =
     seql [Grp 1 (plus (Cls (\<lambda>c. \<not> is_space c))), plus (Cls is_space), Str ds_open,
           plus (Cls is_space), Backref 1, Star (Cls is_space), Str [125]]"

text \<open>
  Step 3, second pattern: a run over letters, digits, 26 symbols, whitespace, \<^verbatim>\<open>*\<close>
  and \<^verbatim>\<open>^\<close>, then whitespace and a displaystyle block up to the next \<^verbatim>\<open>}\<close>.
\<close>

definition dedup_symbols :: "nat list" where
  "dedup_symbols =
     [215, 247, 177, 8804, 8805, 8800, 8776, 8712, 8713, 8834, 8835, 8746, 8745, 8734,
      931, 963, 945, 946, 947, 948, 955, 956, 960, 952, 966, 969]"

definition dedup_class :: "nat \<Rightarrow> bool" where
  "dedup_class c \<longleftrightarrow>
     (65 \<le> c \<and> c \<le> 90) \<or> (97 \<le> c \<and> c \<le> 122) \<or> (48 \<le> c \<and> c \<le> 57) \<or>
     c \<in> set dedup_symbols \<or> is_space c \<or> c = 42 \<or> c = 94"

definition dedup_run_pattern :: regex where
  "dedup_run_pattern =
     seql [Grp 1 (plus (Cls dedup_class)), plus (Cls is_space), Str ds_open,
           plus (Cls is_space), Star (Cls (\<lambda>c. c \<noteq> 125)), Str [125]]"

definition dedup_run_repl :: "rmatch \<Rightarrow> utext" where
  "dedup_run_repl m =
     (if length (str_strip (group m 1)) \<le> 20
      then ds_open @ [32] @ str_strip (group m 1) @ [125]
      else whole m)"

definition dedup_exact :: "utext \<Rightarrow> utext" where
  "dedup_exact t = re_sub dedup_exact_pattern (expand [TLit (ds_open @ [32]), TGrp 1, TLit [125]]) t"

definition dedup_run :: "utext \<Rightarrow> utext" where
  "dedup_run t = re_sub dedup_run_pattern dedup_run_repl t"

text \<open>Step 3 as a whole, and steps 1 to 3, which run for both target formats.\<close>

definition remove_duplicates :: "utext \<Rightarrow> utext" where
  "remove_duplicates t = dedup_run (dedup_exact t)"

definition common_steps :: "utext \<Rightarrow> utext" where
  "common_steps t = remove_duplicates (str_replace [word_joiner] [] (collapse_stacked_math t))"

text \<open>Step 6 of the notebook branch: the table \<open>unicode_to_latex\<close>, in insertion order.\<close>

definition unicode_to_latex :: "(nat \<times> utext) list" where
  "unicode_to_latex =
     [(215, 32 # cmd ''times'' @ [32]), (247, 32 # cmd ''div'' @ [32]),
      (177, 32 # cmd ''pm'' @ [32]), (8804, 32 # cmd ''leq'' @ [32]),
      (8805, 32 # cmd ''geq'' @ [32]), (8800, 32 # cmd ''neq'' @ [32]),
      (8776, 32 # cmd ''approx'' @ [32]), (8712, 32 # cmd ''in'' @ [32]),
      (8713, 32 # cmd ''notin'' @ [32]), (8834, 32 # cmd ''subset'' @ [32]),
      (8835, 32 # cmd ''supset'' @ [32]), (8746, 32 # cmd ''cup'' @ [32]),
      (8745, 32 # cmd ''cap'' @ [32]), (8734, cmd ''infty''), (8721, cmd ''sum''),
      (8719, cmd ''prod''), (8747, cmd ''int''), (8730, cmd ''sqrt''),
      (8706, cmd ''partial''), (8711, cmd ''nabla'')]"

definition substitute_symbols :: "utext \<Rightarrow> utext" where
  "substitute_symbols t =
     foldl (\<lambda>t (unicode_char, latex). str_replace [unicode_char] latex t) t unicode_to_latex"

definition jupyter_branch :: "utext \<Rightarrow> utext" where
  "jupyter_branch t =
     substitute_symbols (convert_inline_latex_fragments (convert_displaystyle_latex t))"

text \<open>
  The plain branch. \<^verbatim>\<open>\\mathbf\s*\{([^}]*)\}\<close> and its siblings keep the group; the
  command names are replaced by their glyphs, one \<open>re.sub\<close> after the other in the
  order of the source.
\<close>

definition unwrap_pattern :: "string \<Rightarrow> regex" where
  "unwrap_pattern name =
     seql [Str (cmd name), Star (Cls is_space), Str [123],
           Grp 1 (Star (Cls (\<lambda>c. c \<noteq> 125))), Str [125]]"

definition plain_symbols :: "(string \<times> nat) list" where
  "plain_symbols =
     [(''times'', 215), (''cdot'', 183), (''Sigma'', 931), (''sigma'', 963),
      (''alpha'', 945), (''beta'', 946), (''gamma'', 947), (''delta'', 948),
      (''lambda'', 955), (''mu'', 956), (''pi'', 960), (''theta'', 952), (''phi'', 966),
      (''omega'', 969), (''infty'', 8734), (''leq'', 8804), (''geq'', 8805),
      (''neq'', 8800), (''approx'', 8776), (''in'', 8712), (''subset'', 8834),
      (''supset'', 8835), (''pm'', 177)]"

text \<open>\<^verbatim>\<open>\s+\<close> and \<^verbatim>\<open>\n{3,}\<close>\<close>

definition spaces_pattern :: regex where
  "spaces_pattern = plus (Cls is_space)"

definition blank_lines_pattern :: regex where
  "blank_lines_pattern = seql [Str [10], Str [10], Str [10], Star (Str [10])]"

definition plain_branch :: "utext \<Rightarrow> utext" where
  "plain_branch t =
     (let t = re_sub (seql [Str ds_open, Star (Cls (\<lambda>c. c \<noteq> 125)), Str [125]]) (expand []) t;
          t = re_sub (unwrap_pattern ''mathbf'') (expand [TGrp 1]) t;
          t = re_sub (unwrap_pattern ''mathit'') (expand [TGrp 1]) t;
          t = re_sub (unwrap_pattern ''mathrm'') (expand [TGrp 1]) t;
          t = re_sub (unwrap_pattern ''text'') (expand [TGrp 1]) t;
          t = foldl (\<lambda>t (name, glyph). re_sub (Str (cmd name)) (expand [TLit [glyph]]) t)
                t plain_symbols;
          t = re_sub (seql [Str [94], Opt (Str [123]), Str [42], Opt (Str [125])])
                (expand [TLit [42]]) t;
          t = re_sub (seql [Str [94], Str [123], Grp 1 (Star (Cls (\<lambda>c. c \<noteq> 125))), Str [125]])
                (expand [TLit [94], TGrp 1]) t;
          t = re_sub (seql [Str [95], Str [123], Grp 1 (Star (Cls (\<lambda>c. c \<noteq> 125))), Str [125]])
                (expand [TLit [95], TGrp 1]) t;
          t = re_sub (Str [125]) (expand []) t;
          t = re_sub (seql [Str [44], Star (Cls is_space), EolM]) (expand []) t;
          t = re_sub spaces_pattern (expand [TLit [32]]) t;
          t = re_sub blank_lines_pattern (expand [TLit [10, 10]]) t
      in t)"

definition clean_wikipedia_text :: "utext \<Rightarrow> bool \<Rightarrow> utext" where
  "clean_wikipedia_text t for_jupyter =
     (let t = common_steps t;
          t = (if for_jupyter then jupyter_branch t else plain_branch t);
          t = re_sub blank_lines_pattern (expand [TLit [10, 10]]) t
      in str_strip t)"

section \<open>Fetching\<close>

text \<open>
  The encyclopedia service and the notebook probe are collaborators outside the
  program, so they are parameters. A call either returns or raises an exception of
  the class \<open>Exception\<close>; an exception carries the text \<open>str(e)\<close>, and a
  disambiguation error also its options. A page is known by its title;
  \<open>page_summary\<close> is the attribute \<open>page.summary\<close>, which the library fetches on demand.
\<close>

datatype exn =
    PageError utext
  | DisambiguationError utext "utext list"
  | OtherException utext

fun str_of :: "exn \<Rightarrow> utext" where
  "str_of (PageError msg) = msg"
| "str_of (DisambiguationError msg options) = msg"
| "str_of (OtherException msg) = msg"

record wiki =
  search :: "utext \<Rightarrow> exn + utext list"
  page :: "utext \<Rightarrow> exn + utext"
  summary :: "utext \<Rightarrow> int \<Rightarrow> exn + utext"
  page_summary :: "utext \<Rightarrow> exn + utext"
  is_jupyter :: bool

text \<open>The inner \<open>try\<close>: a disambiguation error is answered with its first option.\<close>

definition get_page :: "wiki \<Rightarrow> utext \<Rightarrow> exn + utext" where
  "get_page w first_result =
     (case page w first_result of
        Inl (DisambiguationError msg options) \<Rightarrow>
          (case options of
             [] \<Rightarrow> Inl (OtherException (asc ''list index out of range''))
           | option # _ \<Rightarrow> page w option)
      | Inl e \<Rightarrow> Inl e
      | Inr title \<Rightarrow> Inr title)"

text \<open>The body of the outer \<open>try\<close>.\<close>

definition fetch_body :: "wiki \<Rightarrow> utext \<Rightarrow> int \<Rightarrow> exn + utext" where
  "fetch_body w query sentences =
     (case search w query of
        Inl e \<Rightarrow> Inl e
      | Inr results \<Rightarrow>
          (case results of
             [] \<Rightarrow> Inr (asc ''No Wikipedia results found for: '' @ query)
           | first_result # _ \<Rightarrow>
               (case get_page w first_result of
                  Inl e \<Rightarrow> Inl e
                | Inr title \<Rightarrow>
                    (case (if sentences > 0 then summary w title sentences
                           else page_summary w title) of
                       Inl e \<Rightarrow> Inl e
                     | Inr content \<Rightarrow>
                         (let for_jupyter = is_jupyter w;
                              formatted = clean_wikipedia_text content for_jupyter;
                              header = (if for_jupyter then asc ''## '' @ title @ [10, 10]
                                        else asc ''=== '' @ title @ asc '' ==='' @ [10, 10])
                          in Inr (header @ formatted))))))"

text \<open>The two \<open>except\<close> clauses of the outer \<open>try\<close>, in their order.\<close>

definition wiki_fetch :: "wiki \<Rightarrow> utext \<Rightarrow> int \<Rightarrow> exn + utext" where
  "wiki_fetch w query sentences =
     (case fetch_body w query sentences of
        Inr s \<Rightarrow> Inr s
      | Inl (PageError msg) \<Rightarrow> Inr (asc ''Wikipedia page not found for: '' @ query)
      | Inl e \<Rightarrow> Inr (asc ''Error fetching Wikipedia content: '' @ str_of e))"

text \<open>Three environments: no search result, a missing page, a failing search.\<close>

definition wiki_no_results :: wiki where
  "wiki_no_results =
     \<lparr>search = (\<lambda>q. Inr []), page = (\<lambda>t. Inr t), summary = (\<lambda>t n. Inr []),
      page_summary = (\<lambda>t. Inr []), is_jupyter = False\<rparr>"

definition wiki_missing_page :: wiki where
  "wiki_missing_page =
     \<lparr>search = (\<lambda>q. Inr [q]), page = (\<lambda>t. Inl (PageError (asc ''no match''))),
      summary = (\<lambda>t n. Inr []), page_summary = (\<lambda>t. Inr []), is_jupyter = False\<rparr>"

definition wiki_unreachable :: wiki where
  "wiki_unreachable =
     \<lparr>search = (\<lambda>q. Inl (OtherException (asc ''timed out''))), page = (\<lambda>t. Inr t),
      summary = (\<lambda>t n. Inr []), page_summary = (\<lambda>t. Inr []), is_jupyter = False\<rparr>"

text \<open>
  \<open>needs c r\<close>: by the shape of the pattern alone, every match of \<open>r\<close> passes over
  the code point \<open>c\<close>.
\<close>

fun needs :: "nat \<Rightarrow> regex \<Rightarrow> bool" where
  "needs c (Str s) = (c \<in> set s)"
| "needs c (Seq r1 r2) = (needs c r1 \<or> needs c r2)"
| "needs c (Grp n r) = needs c r"
| "needs c r = False"

section \<open>Properties\<close>

subsection \<open>Evaluating the literals\<close>

lemma ds_open_codes:
  "ds_open = [123, 92, 100, 105, 115, 112, 108, 97, 121, 115, 116, 121, 108, 101]"
  by (simp add: ds_open_def cmd_def asc_def)

subsection \<open>The displaystyle converter on the example of its documentation\<close>

text \<open>
  C1. \<open>convert_displaystyle_latex\<close> applied to \<^verbatim>\<open>{\displaystyle m\times n}\<close> returns
  \<^verbatim>\<open>$m \times n$\<close>: the content is trimmed, \<^verbatim>\<open>\times\<close> gets a space on each side,
  the whitespace runs become single spaces and the result stands between two dollar
  signs.
\<close>

theorem convert_displaystyle_example:
  "convert_displaystyle_latex (ds_open @ asc '' m'' @ cmd ''times'' @ asc '' n}'')
     = asc ''$m '' @ cmd ''times'' @ asc '' n$''"
  by (simp add: convert_displaystyle_latex_def re_sub_def replace_displaystyle_def
      displaystyle_pattern_def start_at_def ds_open_def cmd_def asc_def plus_def is_space_def
      no_brace_def advance_def mk_match_def group_def str_strip_def re_sub_from.simps
      ms.simps(5) Let_def)

subsection \<open>Fetching never raises\<close>

text \<open>
  C4. For every query and sentence count \<open>wiki_fetch\<close> returns a string and raises
  nothing, whatever the collaborators return or raise: with no search result the
  string is the "No Wikipedia results found" message, with a page error it is the
  "not found" message, and with any other exception it is the error message with the
  text of the exception.
\<close>

theorem wiki_fetch_returns_text:
  "(\<exists>s. wiki_fetch w query sentences = Inr s) \<and>
   (search w query = Inr [] \<longrightarrow>
      wiki_fetch w query sentences = Inr (asc ''No Wikipedia results found for: '' @ query)) \<and>
   (\<forall>msg. fetch_body w query sentences = Inl (PageError msg) \<longrightarrow>
      wiki_fetch w query sentences = Inr (asc ''Wikipedia page not found for: '' @ query)) \<and>
   (\<forall>e. fetch_body w query sentences = Inl e \<longrightarrow> (\<forall>msg. e \<noteq> PageError msg) \<longrightarrow>
      wiki_fetch w query sentences = Inr (asc ''Error fetching Wikipedia content: '' @ str_of e))"
proof (intro conjI allI impI)
  show "\<exists>s. wiki_fetch w query sentences = Inr s"
    by (simp add: wiki_fetch_def split: sum.split exn.split)
next
  assume "search w query = Inr []"
  then have "fetch_body w query sentences = Inr (asc ''No Wikipedia results found for: '' @ query)"
    by (simp add: fetch_body_def)
  then show "wiki_fetch w query sentences = Inr (asc ''No Wikipedia results found for: '' @ query)"
    by (simp add: wiki_fetch_def)
next
  fix msg
  assume "fetch_body w query sentences = Inl (PageError msg)"
  then show "wiki_fetch w query sentences = Inr (asc ''Wikipedia page not found for: '' @ query)"
    by (simp add: wiki_fetch_def)
next
  fix e
  assume "fetch_body w query sentences = Inl e" and "\<forall>msg. e \<noteq> PageError msg"
  then show "wiki_fetch w query sentences
               = Inr (asc ''Error fetching Wikipedia content: '' @ str_of e)"
    by (cases e) (simp_all add: wiki_fetch_def)
qed

theorem wiki_fetch_returns_text_witness:
  "wiki_fetch wiki_no_results (asc ''svd'') 0
     = Inr (asc ''No Wikipedia results found for: '' @ asc ''svd'') \<and>
   wiki_fetch wiki_missing_page (asc ''svd'') 0
     = Inr (asc ''Wikipedia page not found for: '' @ asc ''svd'') \<and>
   wiki_fetch wiki_unreachable (asc ''svd'') 0
     = Inr (asc ''Error fetching Wikipedia content: '' @ asc ''timed out'')"
proof -
  have a: "search wiki_no_results (asc ''svd'') = Inr []"
    by (simp add: wiki_no_results_def)
  have b: "fetch_body wiki_missing_page (asc ''svd'') 0 = Inl (PageError (asc ''no match''))"
    by (simp add: fetch_body_def get_page_def wiki_missing_page_def)
  have c: "fetch_body wiki_unreachable (asc ''svd'') 0 = Inl (OtherException (asc ''timed out''))"
    by (simp add: fetch_body_def wiki_unreachable_def)
  show ?thesis
    using wiki_fetch_returns_text [of wiki_no_results "asc ''svd''" 0]
      wiki_fetch_returns_text [of wiki_missing_page "asc ''svd''" 0]
      wiki_fetch_returns_text [of wiki_unreachable "asc ''svd''" 0]
      a b c
    by simp
qed

end
